theory Spec2Isabelle
  imports Complex_Main "HOL-Library.Sublist" "HOL-Library.AList" "HOL-Library.Multiset"
begin

section \<open>Strings\<close>

text \<open>
  Python \<^verbatim>\<open>str\<close> values are modelled as \<^typ>\<open>string\<close>; an exception is the text that
  \<^verbatim>\<open>str(e)\<close> gives, and a call that may raise returns \<open>string + 'a\<close> with \<open>Inl\<close>
  holding that text.
\<close>

definition endswith :: "string \<Rightarrow> string \<Rightarrow> bool" where
  "endswith s suf \<longleftrightarrow>
     length suf \<le> length s \<and> drop (length s - length suf) s = suf"

text \<open>\<^verbatim>\<open>s.replace(old, new)\<close> for a non-empty \<open>old\<close>: occurrences are replaced from the
  left and do not overlap.\<close>

function replace :: "string \<Rightarrow> string \<Rightarrow> string \<Rightarrow> string" where
  "replace old new [] = []"
| "replace old new (c # cs) =
     (if old \<noteq> [] \<and> prefix old (c # cs)
      then new @ replace old new (drop (length old) (c # cs))
      else c # replace old new cs)"
  by pat_completeness auto
termination
  by (relation "measure (\<lambda>(old, new, s). length s)") (auto simp: neq_Nil_conv)

definition digit_char :: "nat \<Rightarrow> char" where
  "digit_char d = ''0123456789'' ! d"

text \<open>\<^verbatim>\<open>str(n)\<close> of a non-negative integer, as an f-string renders a status code.\<close>

function str_nat :: "nat \<Rightarrow> string" where
  "str_nat n = (if n < 10 then [digit_char n] else str_nat (n div 10) @ [digit_char (n mod 10)])"
  by pat_completeness auto
termination
  by (relation "measure id") auto

section \<open>Symbol normalisation\<close>

text \<open>
  The Yahoo quote adapter and the fundamentals collector both start with
  \<^verbatim>\<open>if not (symbol.endswith('.NS') or symbol.endswith('.BO')): symbol += '.NS'\<close>;
  the Alpha Vantage adapter with
  \<^verbatim>\<open>if not symbol.endswith('.BSE'): symbol += '.BSE'\<close>.
\<close>

definition yahoo_symbol :: "string \<Rightarrow> string" where
  "yahoo_symbol symbol =
     (if \<not> (endswith symbol ''.NS'' \<or> endswith symbol ''.BO'') then symbol @ ''.NS'' else symbol)"

definition alphavantage_symbol :: "string \<Rightarrow> string" where
  "alphavantage_symbol symbol =
     (if \<not> endswith symbol ''.BSE'' then symbol @ ''.BSE'' else symbol)"

section \<open>The provider boundary\<close>

text \<open>
  Everything the program reads from outside is a field of \<open>world\<close>: the two HTTP
  endpoints (the result of \<^verbatim>\<open>client.get\<close>, \<^verbatim>\<open>raise_for_status\<close> and
  \<^verbatim>\<open>response.json\<close> for a URL), the environment variable holding the API key, the
  \<^verbatim>\<open>yfinance\<close> ticker object, the parsed RSS feed, and the library routines
  \<^verbatim>\<open>float\<close>, \<^verbatim>\<open>int\<close> and \<^verbatim>\<open>datetime.strptime\<close> on text.
  Payloads are typed: a payload on which subscripting or arithmetic raises is kept as
  the \<open>Unreadable\<close> alternative with the text of the exception. JSON numbers are exact
  rationals; the rounding error of binary floating point is not part of the model.
\<close>

datatype 'b http_outcome =
    RequestError string   \<comment> \<open>any exception other than \<^verbatim>\<open>HTTPStatusError\<close>, with its text\<close>
  | StatusError nat       \<comment> \<open>\<^verbatim>\<open>raise_for_status\<close> raised; the status code\<close>
  | Json 'b

record chart_meta =
  regularMarketPrice :: "rat option"
  previousClose :: "rat option"
  regularMarketDayHigh :: "rat option"
  regularMarketDayLow :: "rat option"
  regularMarketVolume :: "rat option"
  regularMarketTime :: "rat option"

datatype yahoo_chart =
    ChartUnreadable string   \<comment> \<open>reading \<^verbatim>\<open>data['chart']...\<close> raises\<close>
  | ChartError string        \<comment> \<open>\<^verbatim>\<open>data['chart']['error']\<close> is not None; its rendering\<close>
  | ChartMeta chart_meta     \<comment> \<open>\<^verbatim>\<open>data['chart']['result'][0]['meta']\<close>\<close>

record global_quote =
  gq_symbol :: "string option"              \<comment> \<open>\<^verbatim>\<open>'01. symbol'\<close>\<close>
  gq_high :: "string option"                \<comment> \<open>\<^verbatim>\<open>'03. high'\<close>\<close>
  gq_low :: "string option"                 \<comment> \<open>\<^verbatim>\<open>'04. low'\<close>\<close>
  gq_price :: "string option"               \<comment> \<open>\<^verbatim>\<open>'05. price'\<close>\<close>
  gq_volume :: "string option"              \<comment> \<open>\<^verbatim>\<open>'06. volume'\<close>\<close>
  gq_latest_trading_day :: "string option"  \<comment> \<open>\<^verbatim>\<open>'07. latest trading day'\<close>\<close>
  gq_previous_close :: "string option"      \<comment> \<open>\<^verbatim>\<open>'08. previous close'\<close>\<close>
  gq_change :: "string option"              \<comment> \<open>\<^verbatim>\<open>'09. change'\<close>\<close>
  gq_change_percent :: "string option"      \<comment> \<open>\<^verbatim>\<open>'10. change percent'\<close>\<close>

datatype av_body =
    AVUnreadable string   \<comment> \<open>reading the payload raises\<close>
  | NoGlobalQuote         \<comment> \<open>\<^verbatim>\<open>'Global Quote' not in data\<close>\<close>
  | GlobalQuote global_quote

type_synonym datetime = nat  \<comment> \<open>naive datetimes in their order; \<^verbatim>\<open>datetime.min\<close> is 0\<close>

definition datetime_min :: datetime where
  "datetime_min = 0"

text \<open>A sub-section of the ticker object: the accessor raises, or gives None, or gives a
  table (a dict or a DataFrame, here its \<^verbatim>\<open>to_dict()\<close>), which may be empty.\<close>

type_synonym table = "(string \<times> string) list"

datatype url_field =
    UrlAbsent                  \<comment> \<open>the key is not in the item\<close>
  | UrlNull                    \<comment> \<open>the key is there with value None: \<^verbatim>\<open>.get\<close> raises\<close>
  | UrlObj "string option"     \<comment> \<open>a dict, with its \<^verbatim>\<open>"url"\<close> entry if it has one\<close>

datatype provider_field =
    ProviderAbsent             \<comment> \<open>no \<^verbatim>\<open>"provider"\<close> key\<close>
  | ProviderUnreadable         \<comment> \<open>\<^verbatim>\<open>item["provider"]["displayName"]\<close> raises\<close>
  | ProviderName string

record yf_content =
  yc_title :: "string option"
  yc_pubDate :: "string option"
  yc_canonicalUrl :: url_field
  yc_clickThroughUrl :: url_field
  yc_provider :: provider_field

type_synonym yf_item = "yf_content option"  \<comment> \<open>None: the item has no \<^verbatim>\<open>"content"\<close>\<close>

datatype source_field =
    SourceAbsent               \<comment> \<open>the entry has no attribute \<^verbatim>\<open>source\<close>\<close>
  | SourceDict "string option" \<comment> \<open>a dict, with its \<^verbatim>\<open>"title"\<close> entry if it has one\<close>
  | SourceOther string         \<comment> \<open>anything else, as \<^verbatim>\<open>str\<close> renders it\<close>

record feed_entry =
  fe_title :: "string option"
  fe_published :: "string option"
  fe_source :: source_field
  fe_link :: "string option"

record ticker_obj =
  t_news :: "string + yf_item list option"
  t_info :: "string + table option"
  t_financials :: "string + table option"
  t_balance_sheet :: "string + table option"
  t_cashflow :: "string + table option"
  t_sustainability :: "string + table option"

record world =
  yahoo_get :: "string \<Rightarrow> yahoo_chart http_outcome"
  alphavantage_get :: "string \<Rightarrow> av_body http_outcome"
  getenv_ALPHAVANTAGE_API_KEY :: "string option"
  py_float :: "string \<Rightarrow> string + rat"       \<comment> \<open>\<^verbatim>\<open>float(s)\<close>; \<open>Inl\<close> the ValueError\<close>
  py_int :: "string \<Rightarrow> string + int"         \<comment> \<open>\<^verbatim>\<open>int(s)\<close>; \<open>Inl\<close> the ValueError\<close>
  strptime :: "string \<Rightarrow> string \<Rightarrow> datetime option"
     \<comment> \<open>\<^verbatim>\<open>datetime.strptime(text, format)\<close>; None when it raises ValueError\<close>
  yf_Ticker :: "string \<Rightarrow> string + ticker_obj"
  feedparser_parse :: "string \<Rightarrow> string + feed_entry list"
     \<comment> \<open>\<^verbatim>\<open>feedparser.parse(url).entries\<close>, \<open>[]\<close> when missing; \<open>Inl\<close> when it raises\<close>

section \<open>Quotes\<close>

datatype number_or_text = Number rat | Text string

record quote =
  symbol :: string
  current_price :: rat
  previous_close :: rat
  change :: rat
  change_percent :: number_or_text
  day_high :: rat
  day_low :: rat
  volume :: rat
  timestamp :: "rat option"              \<comment> \<open>key \<^verbatim>\<open>'timestamp'\<close>, Yahoo only\<close>
  latest_trading_day :: "string option"  \<comment> \<open>key \<^verbatim>\<open>'latest_trading_day'\<close>, Alpha Vantage only\<close>
  data_source :: "string option"         \<comment> \<open>set by the fallback chain\<close>

datatype request = YahooGET string | AlphaVantageGET string

text \<open>\<^verbatim>\<open>round(x, 2)\<close>: to the nearest hundredth, a tie to the even one.\<close>

definition round_half_even :: "rat \<Rightarrow> int" where
  "round_half_even x =
     (let f = \<lfloor>x\<rfloor>; d = x - of_int f
      in if d < 1 / 2 then f else if 1 / 2 < d then f + 1 else if even f then f else f + 1)"

definition round2 :: "rat \<Rightarrow> rat" where
  "round2 x = of_int (round_half_even (x * 100)) / 100"

definition get0 :: "rat option \<Rightarrow> rat" where  \<comment> \<open>\<^verbatim>\<open>meta.get(key, 0)\<close>\<close>
  "get0 v = (case v of None \<Rightarrow> 0 | Some x \<Rightarrow> x)"

definition yahoo_quote_of_meta :: "string \<Rightarrow> chart_meta \<Rightarrow> quote" where
  "yahoo_quote_of_meta symb meta =
     (let cur = get0 (regularMarketPrice meta);
          prev = get0 (previousClose meta);
          chg = cur - prev;
          pct = (if prev \<noteq> 0 then chg / prev * 100 else 0)
      in \<lparr>symbol = symb,
          current_price = cur,
          previous_close = prev,
          change = round2 chg,
          change_percent = Number (round2 pct),
          day_high = get0 (regularMarketDayHigh meta),
          day_low = get0 (regularMarketDayLow meta),
          volume = get0 (regularMarketVolume meta),
          timestamp = Some (get0 (regularMarketTime meta)),
          latest_trading_day = None,
          data_source = None\<rparr>)"

definition yahoo_url :: "string \<Rightarrow> string" where
  "yahoo_url symb = ''https://query1.finance.yahoo.com/v8/finance/chart/'' @ symb"

text \<open>The body of the \<^verbatim>\<open>try\<close>: an \<^verbatim>\<open>Exception\<close> raised there, the API error included,
  is caught by \<^verbatim>\<open>except Exception\<close> and wrapped again.\<close>

definition yahoo_read :: "string \<Rightarrow> yahoo_chart \<Rightarrow> string + quote" where
  "yahoo_read symb body =
     (case body of
        ChartUnreadable e \<Rightarrow> Inl e
      | ChartError err \<Rightarrow> Inl (''API Error: '' @ err)
      | ChartMeta meta \<Rightarrow> Inr (yahoo_quote_of_meta symb meta))"

definition get_indian_stock_quote_yahoo :: "world \<Rightarrow> string \<Rightarrow> (string + quote) \<times> request list" where
  "get_indian_stock_quote_yahoo w symbol0 =
     (let symb = yahoo_symbol symbol0;
          url = yahoo_url symb
      in ((case yahoo_get w url of
             StatusError code \<Rightarrow> Inl (''HTTP Error: '' @ str_nat code)
           | RequestError e \<Rightarrow> Inl (''Error fetching stock data: '' @ e)
           | Json body \<Rightarrow>
               (case yahoo_read symb body of
                  Inl e \<Rightarrow> Inl (''Error fetching stock data: '' @ e)
                | Inr q \<Rightarrow> Inr q)),
          [YahooGET url]))"

definition float_field :: "world \<Rightarrow> string option \<Rightarrow> string + rat" where
  \<comment> \<open>\<^verbatim>\<open>float(quote.get(key, 0))\<close>\<close>
  "float_field w v = (case v of None \<Rightarrow> Inr 0 | Some s \<Rightarrow> py_float w s)"

definition int_field :: "world \<Rightarrow> string option \<Rightarrow> string + int" where
  \<comment> \<open>\<^verbatim>\<open>int(quote.get(key, 0))\<close>\<close>
  "int_field w v = (case v of None \<Rightarrow> Inr 0 | Some s \<Rightarrow> py_int w s)"

definition and_then :: "'e + 'a \<Rightarrow> ('a \<Rightarrow> 'e + 'b) \<Rightarrow> 'e + 'b" where
  "and_then m f = (case m of Inl e \<Rightarrow> Inl e | Inr x \<Rightarrow> f x)"

text \<open>The dict display is evaluated entry by entry, in the order written; the first
  conversion that raises ends it.\<close>

definition alphavantage_quote_of :: "world \<Rightarrow> string \<Rightarrow> global_quote \<Rightarrow> string + quote" where
  "alphavantage_quote_of w symb q =
     and_then (float_field w (gq_price q)) (\<lambda>price.
     and_then (float_field w (gq_change q)) (\<lambda>chg.
     and_then (float_field w (gq_high q)) (\<lambda>high.
     and_then (float_field w (gq_low q)) (\<lambda>low.
     and_then (int_field w (gq_volume q)) (\<lambda>vol.
     and_then (float_field w (gq_previous_close q)) (\<lambda>prev.
       Inr \<lparr>symbol = (case gq_symbol q of None \<Rightarrow> symb | Some s \<Rightarrow> s),
            current_price = price,
            previous_close = prev,
            change = chg,
            change_percent =
              Text (replace ''%'' '''' (case gq_change_percent q of None \<Rightarrow> ''0%'' | Some s \<Rightarrow> s)),
            day_high = high,
            day_low = low,
            volume = of_int vol,
            timestamp = None,
            latest_trading_day =
              Some (case gq_latest_trading_day q of None \<Rightarrow> ''N/A'' | Some s \<Rightarrow> s),
            data_source = None\<rparr>))))))"

definition alphavantage_read :: "world \<Rightarrow> string \<Rightarrow> av_body \<Rightarrow> string + quote" where
  "alphavantage_read w symb body =
     (case body of
        AVUnreadable e \<Rightarrow> Inl e
      | NoGlobalQuote \<Rightarrow> Inl ''Invalid response or API limit reached''
      | GlobalQuote q \<Rightarrow> alphavantage_quote_of w symb q)"

definition alphavantage_url :: "world \<Rightarrow> string \<Rightarrow> string" where
  "alphavantage_url w symb =
     ''https://www.alphavantage.co/query?function=GLOBAL_QUOTE&symbol='' @ symb @ ''&apikey='' @
     (case getenv_ALPHAVANTAGE_API_KEY w of None \<Rightarrow> ''None'' | Some k \<Rightarrow> k)"

definition get_indian_stock_quote_alphavantage ::
  "world \<Rightarrow> string \<Rightarrow> (string + quote) \<times> request list" where
  "get_indian_stock_quote_alphavantage w symbol0 =
     (let symb = alphavantage_symbol symbol0;
          url = alphavantage_url w symb
      in ((case alphavantage_get w url of
             StatusError code \<Rightarrow> Inl (''HTTP Error: '' @ str_nat code)
           | RequestError e \<Rightarrow> Inl (''Error fetching stock data: '' @ e)
           | Json body \<Rightarrow>
               (case alphavantage_read w symb body of
                  Inl e \<Rightarrow> Inl (''Error fetching stock data: '' @ e)
                | Inr q \<Rightarrow> Inr q)),
          [AlphaVantageGET url]))"

text \<open>The fallback chain. The result is paired with the requests issued, in order.\<close>

definition get_indian_stock_quote :: "world \<Rightarrow> string \<Rightarrow> (string + quote) \<times> request list" where
  "get_indian_stock_quote w symbol0 =
     (case get_indian_stock_quote_yahoo w symbol0 of
        (Inr result, reqs) \<Rightarrow> (Inr (result\<lparr>data_source := Some ''Yahoo Finance''\<rparr>), reqs)
      | (Inl yahoo_error, reqs) \<Rightarrow>
          (case get_indian_stock_quote_alphavantage w symbol0 of
             (Inr result, reqs') \<Rightarrow>
               (Inr (result\<lparr>data_source := Some ''Alpha Vantage''\<rparr>), reqs @ reqs')
           | (Inl av_error, reqs') \<Rightarrow>
               (Inl (''Both APIs failed - Yahoo: '' @ yahoo_error @ '', Alpha Vantage: '' @ av_error),
                reqs @ reqs')))"

section \<open>News\<close>

record news_item =
  title :: string
  link :: string
  publisher :: string
  published :: datetime
  source :: string

definition truthy :: "string option \<Rightarrow> bool" where
  \<comment> \<open>\<^verbatim>\<open>item.get(key)\<close> as a condition: the key is there and the text is not empty\<close>
  "truthy v = (case v of None \<Rightarrow> False | Some s \<Rightarrow> s \<noteq> [])"

definition get_or :: "string option \<Rightarrow> string \<Rightarrow> string" where
  \<comment> \<open>\<^verbatim>\<open>item.get(key, default)\<close>\<close>
  "get_or v d = (case v of None \<Rightarrow> d | Some s \<Rightarrow> s)"

text \<open>The link of a Yahoo item; None when reading it raises.\<close>

definition extract_url :: "yf_content \<Rightarrow> string option" where
  "extract_url item =
     (case yc_canonicalUrl item of
        UrlNull \<Rightarrow> None
      | UrlObj u \<Rightarrow> Some (get_or u '''')
      | UrlAbsent \<Rightarrow>
          (case yc_clickThroughUrl item of
             UrlNull \<Rightarrow> None
           | UrlObj u \<Rightarrow> Some (get_or u '''')
           | UrlAbsent \<Rightarrow> Some ''''))"

definition extract_provider :: "yf_content \<Rightarrow> string option" where
  "extract_provider item =
     (case yc_provider item of
        ProviderAbsent \<Rightarrow> Some ''Unknown''
      | ProviderUnreadable \<Rightarrow> None
      | ProviderName n \<Rightarrow> Some n)"

definition yahoo_pub_time :: "world \<Rightarrow> yf_content \<Rightarrow> datetime" where
  "yahoo_pub_time w item =
     (if truthy (yc_pubDate item)
      then (case strptime w (get_or (yc_pubDate item) '''') ''%Y-%m-%dT%H:%M:%SZ'' of
              None \<Rightarrow> datetime_min
            | Some t \<Rightarrow> t)
      else datetime_min)"

text \<open>One pass of the Yahoo loop body: the item to append, or None when the item is
  skipped (\<^verbatim>\<open>continue\<close>, an exception caught by the item's own \<^verbatim>\<open>try\<close>, or an empty
  link).\<close>

definition yahoo_news_item :: "world \<Rightarrow> yf_item \<Rightarrow> news_item option" where
  "yahoo_news_item w raw =
     (case raw of
        None \<Rightarrow> None
      | Some item \<Rightarrow>
          if \<not> truthy (yc_title item) then None
          else (let pub_time = yahoo_pub_time w item
                in case extract_url item of
                     None \<Rightarrow> None
                   | Some url \<Rightarrow>
                       (case extract_provider item of
                          None \<Rightarrow> None
                        | Some p \<Rightarrow>
                            if url \<noteq> []
                            then Some \<lparr>title = get_or (yc_title item) '''',
                                       link = url,
                                       publisher = p,
                                       published = pub_time,
                                       source = ''Yahoo Finance''\<rparr>
                            else None)))"

fun yahoo_loop :: "world \<Rightarrow> yf_item list \<Rightarrow> news_item list \<Rightarrow> news_item list" where
  "yahoo_loop w [] combined_news = combined_news"
| "yahoo_loop w (raw # rest) combined_news =
     yahoo_loop w rest
       (case yahoo_news_item w raw of
          None \<Rightarrow> combined_news
        | Some n \<Rightarrow> combined_news @ [n])"

definition parse_google_date :: "world \<Rightarrow> string \<Rightarrow> datetime" where
  "parse_google_date w date_str =
     (case strptime w date_str ''%a, %d %b %Y %H:%M:%S %Z'' of
        None \<Rightarrow> datetime_min
      | Some t \<Rightarrow> t)"

definition google_news_entry :: "world \<Rightarrow> feed_entry \<Rightarrow> news_item option" where
  "google_news_entry w entry =
     (if \<not> truthy (fe_title entry) then None
      else Some \<lparr>title = get_or (fe_title entry) '''',
                 link = get_or (fe_link entry) '''',
                 publisher =
                   (case fe_source entry of
                      SourceAbsent \<Rightarrow> ''Unknown''
                    | SourceDict t \<Rightarrow> get_or t ''Unknown''
                    | SourceOther s \<Rightarrow> s),
                 published = parse_google_date w (get_or (fe_published entry) ''''),
                 source = ''Google News''\<rparr>)"

fun google_loop :: "world \<Rightarrow> feed_entry list \<Rightarrow> news_item list \<Rightarrow> news_item list" where
  "google_loop w [] combined_news = combined_news"
| "google_loop w (entry # rest) combined_news =
     google_loop w rest
       (case google_news_entry w entry of
          None \<Rightarrow> combined_news
        | Some n \<Rightarrow> combined_news @ [n])"

text \<open>\<^verbatim>\<open>urllib.parse.quote_plus\<close> on the bytes of the query.\<close>

definition always_safe :: "char \<Rightarrow> bool" where
  "always_safe c \<longleftrightarrow>
     c \<in> set ''ABCDEFGHIJKLMNOPQRSTUVWXYZabcdefghijklmnopqrstuvwxyz0123456789_.-~''"

definition hex_char :: "nat \<Rightarrow> char" where
  "hex_char d = ''0123456789ABCDEF'' ! d"

definition quote_plus_char :: "char \<Rightarrow> string" where
  "quote_plus_char c =
     (if always_safe c then [c]
      else if c = CHR '' '' then ''+''
      else [CHR ''%'', hex_char (of_char c div 16), hex_char (of_char c mod 16)])"

definition quote_plus :: "string \<Rightarrow> string" where
  "quote_plus s = concat (map quote_plus_char s)"

definition build_google_news_rss_url :: "string \<Rightarrow> string" where
  "build_google_news_rss_url query =
     ''https://news.google.com/rss/search?q='' @ quote_plus query @ ''&hl=en-IN&gl=IN&ceid=IN:en''"

text \<open>Step 1 of \<^verbatim>\<open>get_indian_stock_news\<close>: the list after the Yahoo block and
  \<^verbatim>\<open>yf_success\<close>.\<close>

definition yahoo_news :: "world \<Rightarrow> string \<Rightarrow> news_item list \<times> bool" where
  "yahoo_news w ticker =
     (case yf_Ticker w ticker of
        Inl e \<Rightarrow> ([], False)
      | Inr stock \<Rightarrow>
          (case t_news stock of
             Inl e \<Rightarrow> ([], False)
           | Inr news \<Rightarrow>
               (yahoo_loop w (case news of None \<Rightarrow> [] | Some items \<Rightarrow> items) [], True)))"

text \<open>Step 2: the list after the Google block and \<^verbatim>\<open>google_success\<close>. A feed with no
  entries leaves the flag at False.\<close>

definition google_news ::
  "world \<Rightarrow> string \<Rightarrow> string option \<Rightarrow> news_item list \<Rightarrow> news_item list \<times> bool" where
  "google_news w stock_name query combined_news =
     (let q = (case query of None \<Rightarrow> stock_name @ '' stock India'' | Some q \<Rightarrow> q);
          rss_url = build_google_news_rss_url q
      in case feedparser_parse w rss_url of
           Inl e \<Rightarrow> (combined_news, False)
         | Inr entries \<Rightarrow>
             if entries = [] then (combined_news, False)
             else (google_loop w entries combined_news, True))"

definition collect_news ::
  "world \<Rightarrow> string \<Rightarrow> string \<Rightarrow> string option \<Rightarrow> news_item list \<times> bool \<times> bool" where
  "collect_news w ticker stock_name query =
     (case yahoo_news w ticker of
        (news1, yf_success) \<Rightarrow>
          (case google_news w stock_name query news1 of
             (combined_news, google_success) \<Rightarrow> (combined_news, yf_success, google_success)))"

text \<open>\<^verbatim>\<open>combined_news.sort(key=lambda x: x["published"], reverse=True)\<close>. The sort of a
  Python list is stable, also with \<^verbatim>\<open>reverse=True\<close>: items with equal keys keep their
  order. The model is the stable insertion sort, which gives the same list.\<close>

fun insort_desc :: "news_item \<Rightarrow> news_item list \<Rightarrow> news_item list" where
  "insort_desc x [] = [x]"
| "insort_desc x (y # ys) =
     (if published y \<le> published x then x # y # ys else y # insort_desc x ys)"

definition sort_published_desc :: "news_item list \<Rightarrow> news_item list" where
  "sort_published_desc xs = foldr insort_desc xs []"

text \<open>\<^verbatim>\<open>xs[:n]\<close>: a negative \<open>n\<close> counts from the end.\<close>

definition slice_to :: "'a list \<Rightarrow> int \<Rightarrow> 'a list" where
  "slice_to xs n = (if 0 \<le> n then take (nat n) xs else take (length xs - nat (- n)) xs)"

text \<open>Newest first: no item is followed by one published later.\<close>

definition newest_first :: "news_item list \<Rightarrow> bool" where
  "newest_first xs = sorted_wrt (\<lambda>a b. published b \<le> published a) xs"

definition get_indian_stock_news ::
  "world \<Rightarrow> string \<Rightarrow> string \<Rightarrow> string option \<Rightarrow> int \<Rightarrow> string + news_item list" where
  "get_indian_stock_news w ticker stock_name query max_items =
     (case collect_news w ticker stock_name query of
        (combined_news, yf_success, google_success) \<Rightarrow>
          if combined_news = [] \<and> \<not> yf_success \<and> \<not> google_success
          then Inl (''Failed to retrieve news from both Yahoo Finance and Google News for '' @ ticker)
          else Inr (slice_to (sort_published_desc combined_news) max_items))"

section \<open>Fundamentals\<close>

type_synonym fundamentals = "(string \<times> table) list"  \<comment> \<open>the dict \<^verbatim>\<open>data\<close>, in insertion order\<close>

definition table_or_empty :: "table option \<Rightarrow> table" where
  \<comment> \<open>the value stored: the table when it is there and not empty, else \<^verbatim>\<open>{}\<close>\<close>
  "table_or_empty v = (case v of None \<Rightarrow> [] | Some t \<Rightarrow> t)"

text \<open>The inner \<^verbatim>\<open>try\<close> block: five assignments in a row inside one \<^verbatim>\<open>try\<close>. An accessor
  that raises ends the block; \<^verbatim>\<open>data\<close> keeps what was stored before.\<close>

definition fetch_sections :: "ticker_obj \<Rightarrow> fundamentals" where
  "fetch_sections stock =
     (case t_info stock of
        Inl e \<Rightarrow> []
      | Inr info \<Rightarrow>
     (let data1 = AList.update ''info'' (table_or_empty info) []
      in case t_financials stock of
        Inl e \<Rightarrow> data1
      | Inr financials \<Rightarrow>
     (let data2 = AList.update ''financials'' (table_or_empty financials) data1
      in case t_balance_sheet stock of
        Inl e \<Rightarrow> data2
      | Inr balance_sheet \<Rightarrow>
     (let data3 = AList.update ''balance_sheet'' (table_or_empty balance_sheet) data2
      in case t_cashflow stock of
        Inl e \<Rightarrow> data3
      | Inr cashflow \<Rightarrow>
     (let data4 = AList.update ''cashflow'' (table_or_empty cashflow) data3
      in case t_sustainability stock of
        Inl e \<Rightarrow> data4
      | Inr sustainability \<Rightarrow>
          AList.update ''sustainability'' (table_or_empty sustainability) data4)))))"

text \<open>The order of the five assignments, and the five accessors in that order.\<close>

definition section_keys :: "string list" where
  "section_keys = [''info'', ''financials'', ''balance_sheet'', ''cashflow'', ''sustainability'']"

definition accessors :: "ticker_obj \<Rightarrow> (string + table option) list" where
  "accessors stock =
     [t_info stock, t_financials stock, t_balance_sheet stock, t_cashflow stock,
      t_sustainability stock]"

definition get_indian_stock_fundamentals :: "world \<Rightarrow> string \<Rightarrow> string + fundamentals" where
  "get_indian_stock_fundamentals w ticker0 =
     (let ticker = yahoo_symbol ticker0
      in case yf_Ticker w ticker of
           Inl e \<Rightarrow>
             if sublist ''No fundamental data available'' e then Inl e
             else Inl (''Unexpected error fetching fundamentals for '' @ ticker @ '': '' @ e)
         | Inr stock \<Rightarrow> Inr (fetch_sections stock))"

section \<open>The exposed operations\<close>

text \<open>The envelope every operation returns; a key that a branch does not set is None.
  The \<^verbatim>\<open>timestamp\<close> entry, a reading of the wall clock, is left out. Each operation
  catches every \<^verbatim>\<open>Exception\<close> of the call it wraps; its own result type keeps the
  \<open>Inl\<close> side so that "never raises" is a statement about the function.\<close>

datatype payload = QuoteData quote | FundamentalsData fundamentals | NewsData "news_item list"

record envelope =
  success :: bool
  data :: "payload option"
  error :: "string option"
  echo_symbol :: "string option"
  echo_ticker :: "string option"
  echo_stock_name :: "string option"
  news_count :: "nat option"

definition get_stock_quote :: "world \<Rightarrow> string \<Rightarrow> string + envelope" where
  "get_stock_quote w symbol0 =
     (case fst (get_indian_stock_quote w symbol0) of
        Inr quote_data \<Rightarrow>
          Inr \<lparr>success = True, data = Some (QuoteData quote_data), error = None,
               echo_symbol = None, echo_ticker = None, echo_stock_name = None,
               news_count = None\<rparr>
      | Inl e \<Rightarrow>
          Inr \<lparr>success = False, data = None, error = Some e,
               echo_symbol = Some symbol0, echo_ticker = None, echo_stock_name = None,
               news_count = None\<rparr>)"

definition get_stock_fundamentals :: "world \<Rightarrow> string \<Rightarrow> string + envelope" where
  "get_stock_fundamentals w ticker =
     (case get_indian_stock_fundamentals w ticker of
        Inr fundamentals_data \<Rightarrow>
          Inr \<lparr>success = True, data = Some (FundamentalsData fundamentals_data), error = None,
               echo_symbol = None, echo_ticker = Some ticker, echo_stock_name = None,
               news_count = None\<rparr>
      | Inl e \<Rightarrow>
          Inr \<lparr>success = False, data = None, error = Some e,
               echo_symbol = None, echo_ticker = Some ticker, echo_stock_name = None,
               news_count = None\<rparr>)"

definition get_stock_news ::
  "world \<Rightarrow> string \<Rightarrow> string \<Rightarrow> string option \<Rightarrow> int \<Rightarrow> string + envelope" where
  "get_stock_news w ticker stock_name query max_items =
     (case get_indian_stock_news w ticker stock_name query max_items of
        Inr news_data \<Rightarrow>
          Inr \<lparr>success = True, data = Some (NewsData news_data), error = None,
               echo_symbol = None, echo_ticker = Some ticker, echo_stock_name = Some stock_name,
               news_count = Some (length news_data)\<rparr>
      | Inl e \<Rightarrow>
          Inr \<lparr>success = False, data = None, error = Some e,
               echo_symbol = None, echo_ticker = Some ticker, echo_stock_name = Some stock_name,
               news_count = None\<rparr>)"

section \<open>The analysis\<close>

record report =
  r_success :: bool
  r_ticker :: string
  r_stock_name :: string
  r_data :: "(string \<times> envelope) list"   \<comment> \<open>the dict \<^verbatim>\<open>analysis_result["data"]\<close>, in insertion order\<close>
  failed_components :: "string list option"

definition failed_result :: "string \<Rightarrow> envelope" where
  \<comment> \<open>\<^verbatim>\<open>{"success": False, "error": str(e)}\<close>\<close>
  "failed_result e =
     \<lparr>success = False, data = None, error = Some e,
      echo_symbol = None, echo_ticker = None, echo_stock_name = None, news_count = None\<rparr>"

definition or_failed :: "string + envelope \<Rightarrow> envelope" where
  \<comment> \<open>\<^verbatim>\<open>try: result = await op(...)  except Exception as e: result = {...}\<close>\<close>
  "or_failed r = (case r of Inr result \<Rightarrow> result | Inl e \<Rightarrow> failed_result e)"

definition get_stock_analysis ::
  "world \<Rightarrow> string \<Rightarrow> string \<Rightarrow> bool \<Rightarrow> int \<Rightarrow> string + report" where
  "get_stock_analysis w ticker stock_name include_news max_news =
     (let d1 = AList.update ''quote''
                 (or_failed (get_stock_quote w (replace ''.BO'' '''' (replace ''.NS'' '''' ticker)))) [];
          d2 = AList.update ''fundamentals'' (or_failed (get_stock_fundamentals w ticker)) d1;
          d3 = (if include_news
                then AList.update ''news''
                       (or_failed (get_stock_news w ticker stock_name None max_news)) d2
                else d2);
          failed = map fst (filter (\<lambda>(component, result). \<not> success result) d3)
      in Inr \<lparr>r_success = (failed = []),
              r_ticker = ticker,
              r_stock_name = stock_name,
              r_data = d3,
              failed_components = (if failed \<noteq> [] then Some failed else None)\<rparr>)"

section \<open>Example inputs\<close>

text \<open>Concrete worlds on which the theorems below are run. \<open>plain_float\<close> and
  \<open>plain_int\<close> read unsigned or signed decimal text, on which they agree with
  \<^verbatim>\<open>float\<close> and \<^verbatim>\<open>int\<close>; the examples use no other notation. Datetimes are counted in
  seconds from \<^verbatim>\<open>datetime.min\<close>.\<close>

fun digits_value :: "string \<Rightarrow> nat \<Rightarrow> nat option" where
  "digits_value [] acc = Some acc"
| "digits_value (c # cs) acc =
     (if c \<in> set ''0123456789'' then digits_value cs (10 * acc + (of_char c - 48)) else None)"

definition unsigned_float :: "string \<Rightarrow> rat option" where
  "unsigned_float s =
     (let ip = takeWhile (\<lambda>c. c \<noteq> CHR ''.'') s;
          fp = drop 1 (dropWhile (\<lambda>c. c \<noteq> CHR ''.'') s)
      in if ip = [] \<and> fp = [] then None
         else (case (digits_value ip 0, digits_value fp 0) of
                 (Some i, Some f) \<Rightarrow> Some (of_nat i + of_nat f / 10 ^ length fp)
               | _ \<Rightarrow> None))"

definition plain_float :: "string \<Rightarrow> string + rat" where
  "plain_float s =
     (case (case s of
              CHR ''-'' # r \<Rightarrow> map_option uminus (unsigned_float r)
            | CHR ''+'' # r \<Rightarrow> unsigned_float r
            | _ \<Rightarrow> unsigned_float s) of
        None \<Rightarrow> Inl (''could not convert string to float: '' @ s)
      | Some x \<Rightarrow> Inr x)"

definition plain_int :: "string \<Rightarrow> string + int" where
  "plain_int s =
     (case (if s = [] then None else digits_value s 0) of
        None \<Rightarrow> Inl (''invalid literal for int() with base 10: '' @ s)
      | Some n \<Rightarrow> Inr (int n))"

definition example_strptime :: "string \<Rightarrow> string \<Rightarrow> datetime option" where
  "example_strptime text fmt =
     (if fmt = ''%Y-%m-%dT%H:%M:%SZ'' \<and> text = ''2024-05-31T06:00:00Z'' then Some 63852732000
      else if fmt = ''%Y-%m-%dT%H:%M:%SZ'' \<and> text = ''2024-05-30T09:30:00Z'' then Some 63852658200
      else if fmt = ''%a, %d %b %Y %H:%M:%S %Z'' \<and> text = ''Fri, 31 May 2024 07:00:00 GMT''
      then Some 63852735600
      else None)"

definition no_sections :: ticker_obj where
  "no_sections =
     \<lparr>t_news = Inr None, t_info = Inr None, t_financials = Inr None,
      t_balance_sheet = Inr None, t_cashflow = Inr None, t_sustainability = Inr None\<rparr>"

text \<open>A world in which every provider is down.\<close>

definition world_down :: world where
  "world_down =
     \<lparr>yahoo_get = (\<lambda>url. RequestError ''timed out''),
      alphavantage_get = (\<lambda>url. StatusError 503),
      getenv_ALPHAVANTAGE_API_KEY = None,
      py_float = plain_float,
      py_int = plain_int,
      strptime = example_strptime,
      yf_Ticker = (\<lambda>ticker. Inl ''connection refused''),
      feedparser_parse = (\<lambda>url. Inl ''connection refused'')\<rparr>"

definition example_meta :: chart_meta where
  "example_meta =
     \<lparr>regularMarketPrice = Some 2500, previousClose = Some 2450,
      regularMarketDayHigh = Some 2510, regularMarketDayLow = Some 2440,
      regularMarketVolume = Some 1000000, regularMarketTime = Some 1717135200\<rparr>"

definition example_global_quote :: global_quote where
  "example_global_quote =
     \<lparr>gq_symbol = Some ''RELIANCE.BSE'', gq_high = Some ''101.0000'', gq_low = Some ''89.5000'',
      gq_price = Some ''100.1250'', gq_volume = Some ''12345'',
      gq_latest_trading_day = Some ''2024-05-31'', gq_previous_close = Some ''90.0000'',
      gq_change = Some ''10.1250'', gq_change_percent = Some ''11.2500%''\<rparr>"

text \<open>The quotes the two adapters make of these payloads, and the result of the chain
  when the secondary provider answers.\<close>

definition example_yahoo_quote :: quote where
  "example_yahoo_quote =
     \<lparr>symbol = ''RELIANCE.NS'', current_price = 2500, previous_close = 2450, change = 50,
      change_percent = Number (204 / 100), day_high = 2510, day_low = 2440, volume = 1000000,
      timestamp = Some 1717135200, latest_trading_day = None, data_source = None\<rparr>"

definition example_alphavantage_quote :: quote where
  "example_alphavantage_quote =
     \<lparr>symbol = ''RELIANCE.BSE'', current_price = 100125 / 1000, previous_close = 90,
      change = 10125 / 1000, change_percent = Text ''11.2500'', day_high = 101,
      day_low = 895 / 10, volume = 12345, timestamp = None,
      latest_trading_day = Some ''2024-05-31'', data_source = None\<rparr>"


text \<open>The primary provider answers.\<close>

definition world_yahoo :: world where
  "world_yahoo = world_down\<lparr>yahoo_get := (\<lambda>url. Json (ChartMeta example_meta))\<rparr>"

text \<open>The primary provider times out, the secondary answers.\<close>

definition world_alphavantage :: world where
  "world_alphavantage =
     world_down\<lparr>alphavantage_get := (\<lambda>url. Json (GlobalQuote example_global_quote)),
                getenv_ALPHAVANTAGE_API_KEY := Some ''KEY''\<rparr>"

definition example_yf_items :: "yf_item list" where
  "example_yf_items =
     [Some \<lparr>yc_title = Some ''Infosys Q4 results'', yc_pubDate = Some ''2024-05-31T06:00:00Z'',
            yc_canonicalUrl = UrlObj (Some ''https://finance.yahoo.com/a''),
            yc_clickThroughUrl = UrlNull, yc_provider = ProviderName ''Reuters''\<rparr>,
      Some \<lparr>yc_title = Some ''Infosys buyback'', yc_pubDate = Some ''2024-05-30T09:30:00Z'',
            yc_canonicalUrl = UrlObj None,
            yc_clickThroughUrl = UrlObj (Some ''https://finance.yahoo.com/b''),
            yc_provider = ProviderAbsent\<rparr>,
      Some \<lparr>yc_title = Some ''Infosys guidance'', yc_pubDate = Some ''2024-05-30T09:30:00Z'',
            yc_canonicalUrl = UrlAbsent,
            yc_clickThroughUrl = UrlObj (Some ''https://finance.yahoo.com/c''),
            yc_provider = ProviderName ''Mint''\<rparr>]"

definition example_entries :: "feed_entry list" where
  "example_entries =
     [\<lparr>fe_title = Some ''Infosys wins deal'', fe_published = Some ''Fri, 31 May 2024 07:00:00 GMT'',
       fe_source = SourceDict (Some ''Economic Times''), fe_link = Some ''https://news.google.com/x''\<rparr>,
      \<lparr>fe_title = Some ''Infosys in focus'', fe_published = None,
       fe_source = SourceAbsent, fe_link = None\<rparr>]"

text \<open>Both news sources answer; the ticker object has no fundamentals.\<close>

definition world_news :: world where
  "world_news =
     world_down\<lparr>yf_Ticker := (\<lambda>ticker. Inr (no_sections\<lparr>t_news := Inr (Some example_yf_items)\<rparr>)),
                feedparser_parse := (\<lambda>url. Inr example_entries)\<rparr>"

text \<open>Only the feed answers, with one entry that has a title and no link.\<close>

definition world_feed_only :: world where
  "world_feed_only =
     world_down\<lparr>feedparser_parse :=
                  (\<lambda>url. Inr [\<lparr>fe_title = Some ''Infosys in focus'', fe_published = None,
                                fe_source = SourceAbsent, fe_link = None\<rparr>])\<rparr>"

text \<open>Yahoo answers with an empty news list; the feed is down.\<close>

definition world_no_news :: world where
  "world_no_news = world_down\<lparr>yf_Ticker := (\<lambda>ticker. Inr no_sections)\<rparr>"

text \<open>The ticker object gives company info; its \<^verbatim>\<open>financials\<close> accessor raises.\<close>

definition world_financials_raise :: world where
  "world_financials_raise =
     world_down\<lparr>yf_Ticker :=
                  (\<lambda>ticker. Inr (no_sections\<lparr>t_info := Inr (Some [(''longName'', ''Infosys Limited'')]),
                                             t_financials := Inl ''HTTP Error 404''\<rparr>))\<rparr>"

text \<open>The items that survive in \<open>world_news\<close>: two of Yahoo's, two of the feed's.\<close>

definition news_q4 :: news_item where
  "news_q4 =
     \<lparr>title = ''Infosys Q4 results'', link = ''https://finance.yahoo.com/a'',
      publisher = ''Reuters'', published = 63852732000, source = ''Yahoo Finance''\<rparr>"

definition news_guidance :: news_item where
  "news_guidance =
     \<lparr>title = ''Infosys guidance'', link = ''https://finance.yahoo.com/c'',
      publisher = ''Mint'', published = 63852658200, source = ''Yahoo Finance''\<rparr>"

definition news_deal :: news_item where
  "news_deal =
     \<lparr>title = ''Infosys wins deal'', link = ''https://news.google.com/x'',
      publisher = ''Economic Times'', published = 63852735600, source = ''Google News''\<rparr>"

definition news_focus :: news_item where
  "news_focus =
     \<lparr>title = ''Infosys in focus'', link = '''', publisher = ''Unknown'',
      published = 0, source = ''Google News''\<rparr>"

text \<open>What \<^verbatim>\<open>get_indian_stock_news\<close> returns in \<open>world_news\<close>: the second Yahoo item
  is dropped, its canonical URL object has no \<^verbatim>\<open>"url"\<close>, and the entry without a date
  sorts last.\<close>

definition example_news :: "news_item list" where
  "example_news = [news_deal, news_q4, news_guidance, news_focus]"

text \<open>The quote provider and the feed answer; the ticker object cannot be built.\<close>

definition world_no_ticker :: world where
  "world_no_ticker = world_yahoo\<lparr>feedparser_parse := (\<lambda>url. Inr example_entries)\<rparr>"

section \<open>Properties\<close>

lemma endswith_suffix: "endswith s suf \<longleftrightarrow> suffix suf s"
proof
  assume "endswith s suf"
  then have "s = take (length s - length suf) s @ suf"
    by (metis append_take_drop_id endswith_def)
  then show "suffix suf s"
    by (metis suffixI)
next
  assume "suffix suf s"
  then obtain p where "s = p @ suf"
    by (auto simp: suffix_def)
  then show "endswith s suf"
    by (simp add: endswith_def)
qed

subsection \<open>Symbol normalisation\<close>

lemma yahoo_symbol_suffix:
  "yahoo_symbol s = (if suffix ''.NS'' s \<or> suffix ''.BO'' s then s else s @ ''.NS'')"
  by (simp add: yahoo_symbol_def endswith_suffix)

lemma alphavantage_symbol_suffix:
  "alphavantage_symbol s = (if suffix ''.BSE'' s then s else s @ ''.BSE'')"
  by (simp add: alphavantage_symbol_def endswith_suffix)

lemma yahoo_symbol_idem: "yahoo_symbol (yahoo_symbol s) = yahoo_symbol s"
  by (simp add: yahoo_symbol_suffix suffix_def)

lemma alphavantage_symbol_idem: "alphavantage_symbol (alphavantage_symbol s) = alphavantage_symbol s"
  by (simp add: alphavantage_symbol_suffix suffix_def)

lemma yahoo_requests: "snd (get_indian_stock_quote_yahoo w s) = [YahooGET (yahoo_url (yahoo_symbol s))]"
  by (simp add: get_indian_stock_quote_yahoo_def Let_def)

lemma alphavantage_requests:
  "snd (get_indian_stock_quote_alphavantage w s) =
     [AlphaVantageGET (alphavantage_url w (alphavantage_symbol s))]"
  by (simp add: get_indian_stock_quote_alphavantage_def Let_def)

lemma fundamentals_normalised:
  "get_indian_stock_fundamentals w s = get_indian_stock_fundamentals w (yahoo_symbol s)"
  by (simp add: get_indian_stock_fundamentals_def Let_def yahoo_symbol_idem)

lemma suffix_examples:
  "suffix ''.BO'' ''TCS.BO''" "\<not> suffix ''.NS'' ''RELIANCE''" "\<not> suffix ''.BO'' ''RELIANCE''"
  "suffix ''.BSE'' ''INFY.BSE''" "\<not> suffix ''.BSE'' ''RELIANCE.NS''" "suffix ''.NS'' ''RELIANCE.NS''"
  by (simp_all add: suffix_to_prefix)

text \<open>
  Claim C8. Symbol normalisation is total over strings. A symbol that already ends with a
  suffix the provider recognises (\<open>.NS\<close> or \<open>.BO\<close> for the Yahoo adapter and the
  fundamentals collector, \<open>.BSE\<close> for Alpha Vantage) is returned unchanged; any other
  symbol gets the provider's default suffix (\<open>.NS\<close>, resp. \<open>.BSE\<close>) appended, once:
  normalising again changes nothing. The normalised symbol is the one each adapter puts
  into its request, and the fundamentals collector depends on the ticker only through it.
\<close>

theorem symbol_normalisation:
  "((suffix ''.NS'' s \<or> suffix ''.BO'' s) \<longrightarrow> yahoo_symbol s = s) \<and>
   (\<not> (suffix ''.NS'' s \<or> suffix ''.BO'' s) \<longrightarrow> yahoo_symbol s = s @ ''.NS'') \<and>
   (suffix ''.BSE'' s \<longrightarrow> alphavantage_symbol s = s) \<and>
   (\<not> suffix ''.BSE'' s \<longrightarrow> alphavantage_symbol s = s @ ''.BSE'') \<and>
   yahoo_symbol (yahoo_symbol s) = yahoo_symbol s \<and>
   alphavantage_symbol (alphavantage_symbol s) = alphavantage_symbol s \<and>
   snd (get_indian_stock_quote_yahoo w s) = [YahooGET (yahoo_url (yahoo_symbol s))] \<and>
   snd (get_indian_stock_quote_alphavantage w s) =
     [AlphaVantageGET (alphavantage_url w (alphavantage_symbol s))] \<and>
   get_indian_stock_fundamentals w s = get_indian_stock_fundamentals w (yahoo_symbol s)"
  using yahoo_symbol_suffix [of s] alphavantage_symbol_suffix [of s] yahoo_symbol_idem [of s]
    alphavantage_symbol_idem [of s] yahoo_requests [of w s] alphavantage_requests [of w s]
    fundamentals_normalised [of w s]
  by simp

theorem symbol_normalisation_witness:
  "yahoo_symbol ''TCS.BO'' = ''TCS.BO'' \<and> yahoo_symbol ''RELIANCE'' = ''RELIANCE.NS'' \<and>
   alphavantage_symbol ''INFY.BSE'' = ''INFY.BSE'' \<and>
   alphavantage_symbol ''RELIANCE.NS'' = ''RELIANCE.NS.BSE''"
  using symbol_normalisation [of "''TCS.BO''" world_down]
    symbol_normalisation [of "''RELIANCE''" world_down]
    symbol_normalisation [of "''INFY.BSE''" world_down]
    symbol_normalisation [of "''RELIANCE.NS''" world_down]
    suffix_examples
  by simp

subsection \<open>The quote chain\<close>

lemma quote_chain_cases:
  "get_indian_stock_quote w s =
     (case fst (get_indian_stock_quote_yahoo w s) of
        Inr q \<Rightarrow> (Inr (q\<lparr>data_source := Some ''Yahoo Finance''\<rparr>),
                   [YahooGET (yahoo_url (yahoo_symbol s))])
      | Inl e1 \<Rightarrow>
          (case fst (get_indian_stock_quote_alphavantage w s) of
             Inr q \<Rightarrow> Inr (q\<lparr>data_source := Some ''Alpha Vantage''\<rparr>)
           | Inl e2 \<Rightarrow> Inl (''Both APIs failed - Yahoo: '' @ e1 @ '', Alpha Vantage: '' @ e2),
           [YahooGET (yahoo_url (yahoo_symbol s)),
            AlphaVantageGET (alphavantage_url w (alphavantage_symbol s))]))"
proof -
  obtain r1 where y: "get_indian_stock_quote_yahoo w s = (r1, [YahooGET (yahoo_url (yahoo_symbol s))])"
    using yahoo_requests [of w s] by (cases "get_indian_stock_quote_yahoo w s") simp
  obtain r2 where a: "get_indian_stock_quote_alphavantage w s =
      (r2, [AlphaVantageGET (alphavantage_url w (alphavantage_symbol s))])"
    using alphavantage_requests [of w s] by (cases "get_indian_stock_quote_alphavantage w s") simp
  show ?thesis
    by (simp add: get_indian_stock_quote_def y a split: sum.splits)
qed

lemma sublist_middle: "sublist e (p @ e @ q)"
  by (auto simp: sublist_def)

lemma combined_error_contains:
  "sublist e1 (''Both APIs failed - Yahoo: '' @ e1 @ '', Alpha Vantage: '' @ e2)"
  "sublist e2 (''Both APIs failed - Yahoo: '' @ e1 @ '', Alpha Vantage: '' @ e2)"
proof -
  show "sublist e1 (''Both APIs failed - Yahoo: '' @ e1 @ '', Alpha Vantage: '' @ e2)"
    by (rule sublist_middle)
  have "sublist e2 ((''Both APIs failed - Yahoo: '' @ e1 @ '', Alpha Vantage: '') @ e2 @ [])"
    by (rule sublist_middle)
  then show "sublist e2 (''Both APIs failed - Yahoo: '' @ e1 @ '', Alpha Vantage: '' @ e2)"
    by simp
qed

text \<open>
  Claim C6. If both quote providers fail, \<open>get_indian_stock_quote\<close> fails with one
  combined error whose message contains the primary provider's error message and the
  secondary provider's error message, and the exposed operation \<open>get_stock_quote\<close>
  returns an envelope with \<open>success = False\<close> and that message as its error.
\<close>

theorem both_providers_fail:
  assumes "fst (get_indian_stock_quote_yahoo w s) = Inl e1"
    and "fst (get_indian_stock_quote_alphavantage w s) = Inl e2"
  shows "\<exists>msg. fst (get_indian_stock_quote w s) = Inl msg \<and>
           msg = ''Both APIs failed - Yahoo: '' @ e1 @ '', Alpha Vantage: '' @ e2 \<and>
           sublist e1 msg \<and> sublist e2 msg \<and>
           get_stock_quote w s =
             Inr \<lparr>success = False, data = None, error = Some msg, echo_symbol = Some s,
                  echo_ticker = None, echo_stock_name = None, news_count = None\<rparr>"
proof -
  let ?msg = "''Both APIs failed - Yahoo: '' @ e1 @ '', Alpha Vantage: '' @ e2"
  have chain: "fst (get_indian_stock_quote w s) = Inl ?msg"
    using assms by (simp add: quote_chain_cases)
  have envelope: "get_stock_quote w s =
      Inr \<lparr>success = False, data = None, error = Some ?msg, echo_symbol = Some s,
           echo_ticker = None, echo_stock_name = None, news_count = None\<rparr>"
    by (simp only: get_stock_quote_def chain sum.case)
  have "sublist e1 ?msg" "sublist e2 ?msg"
    by (rule combined_error_contains)+
  with chain envelope show ?thesis
    by blast
qed

lemma world_down_yahoo:
  "fst (get_indian_stock_quote_yahoo world_down ''RELIANCE.NS'') = Inl ''Error fetching stock data: timed out''"
  by (simp add: get_indian_stock_quote_yahoo_def world_down_def Let_def)

lemma world_down_alphavantage:
  "fst (get_indian_stock_quote_alphavantage world_down ''RELIANCE.NS'') = Inl ''HTTP Error: 503''"
  by (simp add: get_indian_stock_quote_alphavantage_def world_down_def Let_def digit_char_def)

theorem both_providers_fail_witness:
  "get_stock_quote world_down ''RELIANCE.NS'' =
     Inr \<lparr>success = False, data = None,
          error = Some ''Both APIs failed - Yahoo: Error fetching stock data: timed out, Alpha Vantage: HTTP Error: 503'',
          echo_symbol = Some ''RELIANCE.NS'',
          echo_ticker = None, echo_stock_name = None, news_count = None\<rparr> \<and>
   sublist ''Error fetching stock data: timed out''
     ''Both APIs failed - Yahoo: Error fetching stock data: timed out, Alpha Vantage: HTTP Error: 503'' \<and>
   sublist ''HTTP Error: 503''
     ''Both APIs failed - Yahoo: Error fetching stock data: timed out, Alpha Vantage: HTTP Error: 503''"
  using both_providers_fail [OF world_down_yahoo world_down_alphavantage]
  by simp

lemma floor_rat_numeral: "\<lfloor>numeral a / numeral b :: rat\<rfloor> = numeral a div numeral b"
  by (metis floor_divide_of_int_eq of_int_numeral)

lemma round2_50: "round2 50 = 50"
  by (simp add: round2_def round_half_even_def Let_def)

lemma round2_example: "round2 (100 / 49) = 51 / 25"
  by (simp add: round2_def round_half_even_def Let_def floor_rat_numeral)

lemma world_yahoo_quote:
  "fst (get_indian_stock_quote_yahoo world_yahoo ''RELIANCE'') = Inr example_yahoo_quote"
  by (simp add: get_indian_stock_quote_yahoo_def world_yahoo_def world_down_def Let_def
      yahoo_read_def yahoo_quote_of_meta_def example_meta_def get0_def example_yahoo_quote_def
      yahoo_symbol_def endswith_def round2_50 round2_example)

lemma plain_float_examples:
  "plain_float ''100.1250'' = Inr (100125 / 1000)" "plain_float ''90.0000'' = Inr 90"
  "plain_float ''10.1250'' = Inr (10125 / 1000)" "plain_float ''101.0000'' = Inr 101"
  "plain_float ''89.5000'' = Inr (895 / 10)"
  by (simp_all add: plain_float_def unsigned_float_def Let_def)

lemma plain_int_example: "plain_int ''12345'' = Inr 12345"
  by (simp add: plain_int_def)

lemma world_alphavantage_yahoo:
  "fst (get_indian_stock_quote_yahoo world_alphavantage ''RELIANCE'') =
     Inl ''Error fetching stock data: timed out''"
  by (simp add: get_indian_stock_quote_yahoo_def world_alphavantage_def world_down_def Let_def)

lemma world_alphavantage_quote:
  "fst (get_indian_stock_quote_alphavantage world_alphavantage ''RELIANCE'') =
     Inr example_alphavantage_quote"
  by (simp add: get_indian_stock_quote_alphavantage_def world_alphavantage_def world_down_def Let_def
      alphavantage_read_def alphavantage_quote_of_def and_then_def float_field_def int_field_def
      example_global_quote_def plain_float_examples plain_int_example example_alphavantage_quote_def)






text \<open>
  Claim C7. The quote chain asks the primary provider first and the secondary provider
  only after the primary attempt has failed, each at most once: when the primary
  succeeds the only request issued is the Yahoo one and the result is tagged
  \<open>Yahoo Finance\<close>; when it fails the requests are the Yahoo one followed by the Alpha
  Vantage one, and a result of the secondary provider is tagged \<open>Alpha Vantage\<close>.
\<close>

theorem ordered_fallback:
  "(\<forall>q. fst (get_indian_stock_quote_yahoo w s) = Inr q \<longrightarrow>
        get_indian_stock_quote w s =
          (Inr (q\<lparr>data_source := Some ''Yahoo Finance''\<rparr>),
           [YahooGET (yahoo_url (yahoo_symbol s))])) \<and>
   (\<forall>e. fst (get_indian_stock_quote_yahoo w s) = Inl e \<longrightarrow>
        snd (get_indian_stock_quote w s) =
          [YahooGET (yahoo_url (yahoo_symbol s)),
           AlphaVantageGET (alphavantage_url w (alphavantage_symbol s))]) \<and>
   (\<forall>e q. fst (get_indian_stock_quote_yahoo w s) = Inl e \<longrightarrow>
        fst (get_indian_stock_quote_alphavantage w s) = Inr q \<longrightarrow>
        fst (get_indian_stock_quote w s) = Inr (q\<lparr>data_source := Some ''Alpha Vantage''\<rparr>))"
  by (simp add: quote_chain_cases split: sum.splits)

theorem ordered_fallback_witness:
  "get_indian_stock_quote world_yahoo ''RELIANCE'' =
     (Inr (example_yahoo_quote\<lparr>data_source := Some ''Yahoo Finance''\<rparr>),
      [YahooGET ''https://query1.finance.yahoo.com/v8/finance/chart/RELIANCE.NS'']) \<and>
   get_indian_stock_quote world_alphavantage ''RELIANCE'' =
     (Inr (example_alphavantage_quote\<lparr>data_source := Some ''Alpha Vantage''\<rparr>),
      [YahooGET ''https://query1.finance.yahoo.com/v8/finance/chart/RELIANCE.NS'',
       AlphaVantageGET
         ''https://www.alphavantage.co/query?function=GLOBAL_QUOTE&symbol=RELIANCE.BSE&apikey=KEY''])"
  using ordered_fallback [of world_yahoo "''RELIANCE''"]
    ordered_fallback [of world_alphavantage "''RELIANCE''"]
    world_yahoo_quote world_alphavantage_yahoo world_alphavantage_quote
  by (simp add: prod_eq_iff yahoo_url_def yahoo_symbol_def alphavantage_symbol_def endswith_def
      alphavantage_url_def world_alphavantage_def world_down_def)





subsection \<open>News\<close>

lemma yahoo_loop_append:
  "yahoo_loop w items acc = acc @ List.map_filter (yahoo_news_item w) items"
  by (induction items arbitrary: acc) (auto simp: map_filter_simps split: option.splits)

lemma google_loop_append:
  "google_loop w entries acc = acc @ List.map_filter (google_news_entry w) entries"
  by (induction entries arbitrary: acc) (auto simp: map_filter_simps split: option.splits)

lemma google_news_append:
  "fst (google_news w stock_name query acc) = acc @ fst (google_news w stock_name query [])"
  "snd (google_news w stock_name query acc) = snd (google_news w stock_name query [])"
  by (auto simp: google_news_def Let_def google_loop_append split: sum.splits)

lemma collect_news_concat:
  "collect_news w ticker stock_name query =
     (fst (yahoo_news w ticker) @ fst (google_news w stock_name query []),
      snd (yahoo_news w ticker), snd (google_news w stock_name query []))"
  using google_news_append [of w stock_name query "fst (yahoo_news w ticker)"]
  by (cases "yahoo_news w ticker";
      cases "google_news w stock_name query (fst (yahoo_news w ticker))")
     (simp add: collect_news_def)

lemma mset_insort_desc: "mset (insort_desc x xs) = add_mset x (mset xs)"
  by (induction xs) auto

lemma set_insort_desc: "set (insort_desc x xs) = insert x (set xs)"
  by (induction xs) auto

lemma sorted_insort_desc: "newest_first xs \<Longrightarrow> newest_first (insort_desc x xs)"
  by (induction xs) (auto simp: newest_first_def set_insort_desc)

lemma filter_insort_desc:
  "filter (\<lambda>n. published n = k) (insort_desc x xs) =
     (if published x = k then x # filter (\<lambda>n. published n = k) xs
      else filter (\<lambda>n. published n = k) xs)"
  by (induction xs) auto

lemma insort_desc_Cons: "\<forall>y\<in>set xs. published y \<le> published x \<Longrightarrow> insort_desc x xs = x # xs"
  by (cases xs) auto

lemma mset_sort_published_desc: "mset (sort_published_desc xs) = mset xs"
  by (induction xs) (auto simp: sort_published_desc_def mset_insort_desc)

lemma sorted_sort_published_desc: "newest_first (sort_published_desc xs)"
proof (induction xs)
  case Nil
  show ?case by (simp add: sort_published_desc_def newest_first_def)
next
  case (Cons x xs)
  then show ?case by (simp add: sort_published_desc_def sorted_insort_desc)
qed

lemma stable_sort_published_desc:
  "filter (\<lambda>n. published n = k) (sort_published_desc xs) = filter (\<lambda>n. published n = k) xs"
  by (induction xs) (auto simp: sort_published_desc_def filter_insort_desc)

lemma sort_published_desc_id: "newest_first xs \<Longrightarrow> sort_published_desc xs = xs"
proof (induction xs)
  case Nil
  then show ?case by (simp add: sort_published_desc_def)
next
  case (Cons x xs)
  then have "sort_published_desc xs = xs" and "\<forall>y\<in>set xs. published y \<le> published x"
    by (simp_all add: newest_first_def)
  then show ?case
    using insort_desc_Cons [of xs x] by (simp add: sort_published_desc_def)
qed

lemma newest_first_slice_to: "newest_first xs \<Longrightarrow> newest_first (slice_to xs n)"
  by (simp add: slice_to_def newest_first_def sorted_wrt_take)

lemma insort_desc_insort_key:
  "insort_desc x xs = insort_key (\<lambda>n. - int (published n)) x xs"
  by (induction xs) auto

lemma sort_published_desc_sort_key:
  "sort_published_desc xs = sort_key (\<lambda>n. - int (published n)) xs"
  by (induction xs) (auto simp: sort_published_desc_def insort_desc_insort_key)

lemma stable_sort_unique:
  assumes "mset ys = mset xs" and "newest_first ys"
    and "\<And>k. filter (\<lambda>n. published n = k) ys = filter (\<lambda>n. published n = k) xs"
  shows "sort_published_desc xs = ys"
proof -
  have "sort_key (\<lambda>n. - int (published n)) xs = ys"
  proof (rule properties_for_sort_key)
    show "mset ys = mset xs" by fact
    show "sorted (map (\<lambda>n. - int (published n)) ys)"
      using assms(2) by (simp add: newest_first_def sorted_map)
    fix k
    show "filter (\<lambda>x. - int (published k) = - int (published x)) ys =
          filter (\<lambda>x. - int (published k) = - int (published x)) xs"
      using assms(3) [of "published k"] by (simp add: eq_commute)
  qed
  then show ?thesis
    by (simp add: sort_published_desc_sort_key)
qed

lemma slice_to_nonneg: "0 \<le> n \<Longrightarrow> slice_to xs n = take (nat n) xs"
  by (simp add: slice_to_def)

lemma slice_to_neg:
  assumes "n < 0"
  shows "\<exists>removed. xs = slice_to xs n @ removed \<and> length removed = min (nat (- n)) (length xs)"
proof -
  have "xs = slice_to xs n @ drop (length xs - nat (- n)) xs"
    using assms by (simp add: slice_to_def)
  moreover have "length (drop (length xs - nat (- n)) xs) = min (nat (- n)) (length xs)"
    by simp
  ultimately show ?thesis
    by blast
qed

lemma news_result:
  "get_indian_stock_news w ticker stock_name query max_items =
     (let combined = fst (yahoo_news w ticker) @ fst (google_news w stock_name query [])
      in if combined = [] \<and> \<not> snd (yahoo_news w ticker) \<and> \<not> snd (google_news w stock_name query [])
         then Inl (''Failed to retrieve news from both Yahoo Finance and Google News for '' @ ticker)
         else Inr (slice_to (sort_published_desc combined) max_items))"
  by (simp add: get_indian_stock_news_def collect_news_concat Let_def)

text \<open>
  Claim C2. \<open>get_indian_stock_news\<close> raises if and only if the merged list is empty and
  neither source reported success; when the merged list is empty and at least one source
  reported success it returns the empty sequence, without error.
\<close>

theorem news_fails_iff:
  assumes "collect_news w ticker stock_name query = (combined, yf_success, google_success)"
  shows "((\<exists>e. get_indian_stock_news w ticker stock_name query max_items = Inl e) \<longleftrightarrow>
            combined = [] \<and> \<not> yf_success \<and> \<not> google_success) \<and>
         (combined = [] \<and> (yf_success \<or> google_success) \<longrightarrow>
            get_indian_stock_news w ticker stock_name query max_items = Inr [])"
  using assms
  by (auto simp: get_indian_stock_news_def slice_to_def sort_published_desc_def)

text \<open>
  Claim C9. The sequence \<open>get_indian_stock_news\<close> returns is the stable sort, by published
  date descending, of the concatenation of both sources' surviving items (a permutation
  of it, newest first, items with equal dates in their order of arrival), cut by the
  slice \<^verbatim>\<open>[:max_items]\<close>, which for a non-negative \<open>max_items\<close> is its first
  \<open>max_items\<close> elements; sorting the returned sequence again by published date
  descending gives the same sequence.
\<close>

theorem news_is_stable_sort_truncated:
  assumes "get_indian_stock_news w ticker stock_name query max_items = Inr result"
  shows "\<exists>combined sorted_news.
           combined = fst (yahoo_news w ticker) @ fst (google_news w stock_name query []) \<and>
           mset sorted_news = mset combined \<and>
           newest_first sorted_news \<and>
           (\<forall>k. filter (\<lambda>n. published n = k) sorted_news = filter (\<lambda>n. published n = k) combined) \<and>
           result = slice_to sorted_news max_items \<and>
           (0 \<le> max_items \<longrightarrow> result = take (nat max_items) sorted_news) \<and>
           sort_published_desc result = result"
proof -
  let ?combined = "fst (yahoo_news w ticker) @ fst (google_news w stock_name query [])"
  let ?sorted = "sort_published_desc ?combined"
  have result: "result = slice_to ?sorted max_items"
    using assms by (simp add: news_result Let_def split: if_splits)
  have "newest_first result"
    unfolding result by (rule newest_first_slice_to) (rule sorted_sort_published_desc)
  then have "sort_published_desc result = result"
    by (rule sort_published_desc_id)
  moreover have "0 \<le> max_items \<longrightarrow> result = take (nat max_items) ?sorted"
    by (simp add: result slice_to_nonneg)
  ultimately show ?thesis
    using result mset_sort_published_desc [of ?combined] sorted_sort_published_desc [of ?combined]
      stable_sort_published_desc [of _ ?combined]
    by blast
qed

text \<open>
  Claim C10. \<open>max_items\<close> goes into the slice unvalidated. Whenever at least one source
  succeeds, \<open>max_items = 0\<close> gives the empty sequence, reported as a success with
  \<open>news_count = 0\<close>, the same envelope as when no news is available at all; and a negative
  \<open>max_items\<close> gives the merged sorted list with its last \<open>|max_items|\<close> elements removed
  (all of them when the list is shorter), not an error.
\<close>

theorem unvalidated_max_items:
  assumes "collect_news w ticker stock_name query = (combined, yf_success, google_success)"
    and "yf_success \<or> google_success"
  shows "get_indian_stock_news w ticker stock_name query 0 = Inr [] \<and>
         get_stock_news w ticker stock_name query 0 =
           Inr \<lparr>success = True, data = Some (NewsData []), error = None, echo_symbol = None,
                echo_ticker = Some ticker, echo_stock_name = Some stock_name,
                news_count = Some 0\<rparr> \<and>
         (\<forall>m. combined = [] \<longrightarrow>
            get_stock_news w ticker stock_name query m =
            get_stock_news w ticker stock_name query 0) \<and>
         (\<forall>m<0. \<exists>result removed.
            get_indian_stock_news w ticker stock_name query m = Inr result \<and>
            sort_published_desc combined = result @ removed \<and>
            length removed = min (nat (- m)) (length combined))"
proof -
  have news: "get_indian_stock_news w ticker stock_name query m =
      Inr (slice_to (sort_published_desc combined) m)" for m
    using assms by (auto simp: get_indian_stock_news_def)
  have zero: "get_indian_stock_news w ticker stock_name query 0 = Inr []"
    by (simp add: news slice_to_def)
  have len: "length (sort_published_desc combined) = length combined"
    by (metis mset_sort_published_desc size_mset)
  have neg: "\<exists>result removed.
            get_indian_stock_news w ticker stock_name query m = Inr result \<and>
            sort_published_desc combined = result @ removed \<and>
            length removed = min (nat (- m)) (length combined)" if "m < 0" for m
    using slice_to_neg [OF that, of "sort_published_desc combined"] news [of m] len by auto
  have empty: "get_stock_news w ticker stock_name query m =
            get_stock_news w ticker stock_name query 0" if "combined = []" for m
    using that by (simp add: get_stock_news_def news slice_to_def sort_published_desc_def)
  show ?thesis
    using zero neg empty by (simp add: get_stock_news_def)
qed

lemma world_news_yahoo: "yahoo_news world_news ''INFY.NS'' = ([news_q4, news_guidance], True)"
  by (simp add: yahoo_news_def world_news_def world_down_def no_sections_def example_yf_items_def
      yahoo_news_item_def truthy_def get_or_def extract_url_def extract_provider_def
      yahoo_pub_time_def example_strptime_def news_q4_def news_guidance_def Let_def)

lemma world_news_google:
  "google_news world_news ''Infosys'' None [] = ([news_deal, news_focus], True)"
  by (simp add: google_news_def world_news_def world_down_def example_entries_def
      google_news_entry_def truthy_def get_or_def parse_google_date_def example_strptime_def
      datetime_min_def news_deal_def news_focus_def Let_def)

lemma world_news_collect:
  "collect_news world_news ''INFY.NS'' ''Infosys'' None =
     ([news_q4, news_guidance, news_deal, news_focus], True, True)"
  by (simp add: collect_news_concat world_news_yahoo world_news_google)

lemma world_news_sorted:
  "sort_published_desc [news_q4, news_guidance, news_deal, news_focus] = example_news"
  by (simp add: sort_published_desc_def example_news_def news_q4_def news_guidance_def
      news_deal_def news_focus_def)

lemma world_news_result:
  "get_indian_stock_news world_news ''INFY.NS'' ''Infosys'' None m = Inr (slice_to example_news m)"
  by (simp add: get_indian_stock_news_def world_news_collect world_news_sorted)

lemma world_no_news_collect:
  "collect_news world_no_news ''INFY.NS'' ''Infosys'' None = ([], True, False)"
  by (simp add: collect_news_concat yahoo_news_def google_news_def world_no_news_def
      world_down_def no_sections_def Let_def)

lemma world_down_collect:
  "collect_news world_down ''INFY.NS'' ''Infosys'' None = ([], False, False)"
  by (simp add: collect_news_concat yahoo_news_def google_news_def world_down_def Let_def)

theorem news_fails_iff_witness:
  "get_indian_stock_news world_no_news ''INFY.NS'' ''Infosys'' None 10 = Inr [] \<and>
   get_indian_stock_news world_down ''INFY.NS'' ''Infosys'' None 10 =
     Inl ''Failed to retrieve news from both Yahoo Finance and Google News for INFY.NS''"
  using news_fails_iff [OF world_no_news_collect, of 10] news_fails_iff [OF world_down_collect, of 10]
  by (auto simp: get_indian_stock_news_def world_down_collect)

theorem news_is_stable_sort_truncated_witness:
  "get_indian_stock_news world_news ''INFY.NS'' ''Infosys'' None 2 = Inr [news_deal, news_q4] \<and>
   sort_published_desc [news_deal, news_q4] = [news_deal, news_q4]"
proof -
  have r: "get_indian_stock_news world_news ''INFY.NS'' ''Infosys'' None 2 = Inr [news_deal, news_q4]"
    by (simp add: world_news_result slice_to_def example_news_def)
  from news_is_stable_sort_truncated [OF r] r show ?thesis
    by blast
qed

theorem unvalidated_max_items_witness:
  "get_indian_stock_news world_news ''INFY.NS'' ''Infosys'' None 0 = Inr [] \<and>
   get_indian_stock_news world_news ''INFY.NS'' ''Infosys'' None (- 1) =
     Inr [news_deal, news_q4, news_guidance] \<and>
   get_stock_news world_news ''INFY.NS'' ''Infosys'' None 0 =
     get_stock_news world_no_news ''INFY.NS'' ''Infosys'' None 10"
proof -
  have "True \<or> True" by simp
  note w1 = unvalidated_max_items [OF world_news_collect this]
  have "True \<or> False" by simp
  note w2 = unvalidated_max_items [OF world_no_news_collect this]
  have zero: "get_indian_stock_news world_news ''INFY.NS'' ''Infosys'' None 0 = Inr []"
    using w1 by blast
  have minus_one: "get_indian_stock_news world_news ''INFY.NS'' ''Infosys'' None (- 1) =
     Inr [news_deal, news_q4, news_guidance]"
    by (simp add: world_news_result slice_to_def example_news_def)
  have "get_stock_news world_news ''INFY.NS'' ''Infosys'' None 0 =
      get_stock_news world_no_news ''INFY.NS'' ''Infosys'' None 0"
    using w1 w2 by simp
  moreover have "get_stock_news world_no_news ''INFY.NS'' ''Infosys'' None 10 =
      get_stock_news world_no_news ''INFY.NS'' ''Infosys'' None 0"
    using w2 by blast
  ultimately show ?thesis
    using zero minus_one by simp
qed

lemma yahoo_news_item_link: "yahoo_news_item w raw = Some n \<Longrightarrow> link n \<noteq> [] \<and> source n = ''Yahoo Finance''"
  by (auto simp: yahoo_news_item_def Let_def split: option.splits if_splits)

lemma yahoo_items_have_links:
  assumes "n \<in> set (fst (yahoo_news w ticker))"
  shows "link n \<noteq> []"
proof -
  from assms obtain items where "n \<in> set (List.map_filter (yahoo_news_item w) items)"
    by (auto simp: yahoo_news_def yahoo_loop_append split: sum.splits)
  then obtain raw where "yahoo_news_item w raw = Some n"
    by (auto simp: map_filter_def)
  then show ?thesis
    using yahoo_news_item_link by blast
qed

lemma canonical_url_preferred:
  "yc_canonicalUrl item = UrlObj u \<Longrightarrow> extract_url item = Some (get_or u '''')"
  by (simp add: extract_url_def)

text \<open>
  Claim C4 (every item returned has a non-empty link) at a failing input: Yahoo is down
  and the feed has one entry with a title and no link. The Yahoo loop drops an item whose
  link is empty, as the two lemmas above say; the Google loop has no such test, and the
  entry is returned with the empty link.
\<close>

theorem feed_entry_without_link_is_kept:
  "get_indian_stock_news world_feed_only ''INFY.NS'' ''Infosys'' None 10 = Inr [news_focus] \<and>
   link news_focus = []"
  by (simp add: get_indian_stock_news_def collect_news_concat yahoo_news_def google_news_def
      world_feed_only_def world_down_def google_news_entry_def truthy_def get_or_def
      parse_google_date_def example_strptime_def datetime_min_def news_focus_def Let_def
      sort_published_desc_def slice_to_def)

subsection \<open>Fundamentals\<close>

lemma fetch_sections_prefix:
  "fetch_sections stock =
     (let n = length (takeWhile (\<lambda>a. \<not> isl a) (accessors stock))
      in zip (take n section_keys)
             (map (\<lambda>a. table_or_empty (projr a)) (take n (accessors stock))))"
  by (simp add: fetch_sections_def accessors_def section_keys_def Let_def split: sum.splits)

text \<open>
  Claim C1, as amended. When the ticker object can be built, \<open>get_indian_stock_fundamentals\<close>
  returns a mapping and never fails. The five sub-sections are read in the order info,
  financials, balance_sheet, cashflow, sustainability inside one guarded block. A
  sub-section whose retrieval gives None or an empty structure is stored as an empty
  mapping under its key and the following ones are still read. The first retrieval that
  raises ends the block: the mapping returned holds the keys stored before it, a prefix of
  the five, and the remaining sub-sections are not read. The mapping has exactly the five
  keys whenever no retrieval raises.
\<close>

theorem fundamentals_sections:
  assumes "yf_Ticker w (yahoo_symbol ticker) = Inr stock"
  shows "\<exists>data n.
           get_indian_stock_fundamentals w ticker = Inr data \<and>
           n = length (takeWhile (\<lambda>a. \<not> isl a) (accessors stock)) \<and>
           map fst data = take n section_keys \<and>
           map snd data = map (\<lambda>a. table_or_empty (projr a)) (take n (accessors stock)) \<and>
           ((\<forall>a\<in>set (accessors stock). \<not> isl a) \<longrightarrow> map fst data = section_keys)"
proof -
  let ?n = "length (takeWhile (\<lambda>a. \<not> isl a) (accessors stock))"
  have len: "length (accessors stock) = 5" "length section_keys = 5"
    by (simp_all add: accessors_def section_keys_def)
  have n: "?n \<le> 5"
    using length_takeWhile_le [of "\<lambda>a. \<not> isl a" "accessors stock"] len by simp
  have data: "get_indian_stock_fundamentals w ticker = Inr (fetch_sections stock)"
    using assms by (simp add: get_indian_stock_fundamentals_def Let_def)
  have keys: "map fst (fetch_sections stock) = take ?n section_keys"
    using n len by (simp add: fetch_sections_prefix Let_def)
  have vals: "map snd (fetch_sections stock) =
      map (\<lambda>a. table_or_empty (projr a)) (take ?n (accessors stock))"
    using n len by (simp add: fetch_sections_prefix Let_def)
  have "?n = 5" if "\<forall>a\<in>set (accessors stock). \<not> isl a"
    using that len by (simp add: takeWhile_eq_all_conv [THEN iffD2])
  then have "(\<forall>a\<in>set (accessors stock). \<not> isl a) \<longrightarrow> map fst (fetch_sections stock) = section_keys"
    using keys len by simp
  with data keys vals show ?thesis
    by blast
qed

lemma world_news_fundamentals:
  "get_indian_stock_fundamentals world_news ''INFY'' =
     Inr [(''info'', []), (''financials'', []), (''balance_sheet'', []), (''cashflow'', []),
          (''sustainability'', [])]"
  by (simp add: get_indian_stock_fundamentals_def world_news_def world_down_def no_sections_def
      fetch_sections_def table_or_empty_def Let_def)

lemma world_financials_raise_fundamentals:
  "get_indian_stock_fundamentals world_financials_raise ''INFY'' =
     Inr [(''info'', [(''longName'', ''Infosys Limited'')])]"
  by (simp add: get_indian_stock_fundamentals_def world_financials_raise_def world_down_def
      no_sections_def fetch_sections_def table_or_empty_def Let_def)

text \<open>
  Claim C1 as stated (a retrieval that raises is stored as an empty mapping, the remaining
  sub-sections are still fetched, and the result always has the five keys) fails when the
  \<^verbatim>\<open>financials\<close> accessor raises: the result holds the key \<open>info\<close> only.
\<close>

theorem financials_raise_counterexample:
  "get_indian_stock_fundamentals world_financials_raise ''INFY'' =
     Inr [(''info'', [(''longName'', ''Infosys Limited'')])] \<and>
   map fst [(''info'', [(''longName'', ''Infosys Limited'')])] \<noteq> section_keys"
  using world_financials_raise_fundamentals by (simp add: section_keys_def)

theorem fundamentals_sections_witness:
  "get_indian_stock_fundamentals world_news ''INFY'' =
     Inr [(''info'', []), (''financials'', []), (''balance_sheet'', []), (''cashflow'', []),
          (''sustainability'', [])] \<and>
   get_indian_stock_fundamentals world_financials_raise ''INFY'' =
     Inr [(''info'', [(''longName'', ''Infosys Limited'')])]"
proof -
  have "yf_Ticker world_news (yahoo_symbol ''INFY'') =
      Inr (no_sections\<lparr>t_news := Inr (Some example_yf_items)\<rparr>)"
    by (simp add: world_news_def world_down_def)
  note a = fundamentals_sections [OF this]
  have "yf_Ticker world_financials_raise (yahoo_symbol ''INFY'') =
      Inr (no_sections\<lparr>t_info := Inr (Some [(''longName'', ''Infosys Limited'')]),
                       t_financials := Inl ''HTTP Error 404''\<rparr>)"
    by (simp add: world_financials_raise_def world_down_def)
  note b = fundamentals_sections [OF this]
  from a b show ?thesis
    using world_news_fundamentals world_financials_raise_fundamentals by simp
qed

subsection \<open>The exposed operations and the analysis\<close>

lemma get_stock_quote_total:
  "\<exists>env. get_stock_quote w s = Inr env \<and>
         (success env \<longleftrightarrow> (\<exists>q. fst (get_indian_stock_quote w s) = Inr q))"
  by (cases "fst (get_indian_stock_quote w s)") (simp_all add: get_stock_quote_def)

lemma get_stock_fundamentals_total:
  "\<exists>env. get_stock_fundamentals w t = Inr env \<and>
         (success env \<longleftrightarrow> (\<exists>d. get_indian_stock_fundamentals w t = Inr d))"
  by (cases "get_indian_stock_fundamentals w t") (simp_all add: get_stock_fundamentals_def)

lemma get_stock_news_total:
  "\<exists>env. get_stock_news w t n q m = Inr env \<and>
         (success env \<longleftrightarrow> (\<exists>d. get_indian_stock_news w t n q m = Inr d))"
  by (cases "get_indian_stock_news w t n q m") (simp_all add: get_stock_news_def)

text \<open>
  Claim C5. \<open>get_stock_analysis\<close> always returns a report, never an exception. The
  report holds the result of every requested component (quote, fundamentals, and news
  when \<open>include_news\<close> is true), whatever the others did. Its success flag is true if and
  only if the success flag of every component result in it is true; when it is false,
  \<open>failed_components\<close> lists the names of the failing components and no others, in the
  order quote, fundamentals, news.
\<close>

theorem analysis_report:
  "\<exists>rep quote_result fundamentals_result news_result.
     get_stock_analysis w ticker stock_name include_news max_news = Inr rep \<and>
     get_stock_quote w (replace ''.BO'' '''' (replace ''.NS'' '''' ticker)) = Inr quote_result \<and>
     get_stock_fundamentals w ticker = Inr fundamentals_result \<and>
     get_stock_news w ticker stock_name None max_news = Inr news_result \<and>
     r_data rep =
       [(''quote'', quote_result), (''fundamentals'', fundamentals_result)] @
       (if include_news then [(''news'', news_result)] else []) \<and>
     (r_success rep \<longleftrightarrow> (\<forall>(component, result) \<in> set (r_data rep). success result)) \<and>
     (r_success rep \<longrightarrow> failed_components rep = None) \<and>
     (\<not> r_success rep \<longrightarrow>
        failed_components rep =
          Some ((if success quote_result then [] else [''quote'']) @
                (if success fundamentals_result then [] else [''fundamentals'']) @
                (if include_news \<and> \<not> success news_result then [''news''] else [])))"
proof -
  obtain qr where qr: "get_stock_quote w (replace ''.BO'' '''' (replace ''.NS'' '''' ticker)) = Inr qr"
    using get_stock_quote_total by blast
  obtain fr where fr: "get_stock_fundamentals w ticker = Inr fr"
    using get_stock_fundamentals_total by blast
  obtain nr where nr: "get_stock_news w ticker stock_name None max_news = Inr nr"
    using get_stock_news_total by blast
  show ?thesis
    by (cases include_news)
       (simp_all add: get_stock_analysis_def qr fr nr or_failed_def Let_def)
qed

lemma world_no_ticker_quote:
  "\<exists>q. fst (get_indian_stock_quote world_no_ticker s) = Inr q"
  by (simp add: quote_chain_cases get_indian_stock_quote_yahoo_def world_no_ticker_def
      world_yahoo_def world_down_def yahoo_read_def Let_def)

lemma world_no_ticker_fundamentals:
  "\<nexists>d. get_indian_stock_fundamentals world_no_ticker t = Inr d"
  by (simp add: get_indian_stock_fundamentals_def world_no_ticker_def world_yahoo_def
      world_down_def Let_def)

lemma world_no_ticker_news:
  "\<exists>d. get_indian_stock_news world_no_ticker t ''Infosys'' None m = Inr d"
  by (simp add: news_result yahoo_news_def google_news_def world_no_ticker_def world_yahoo_def
      world_down_def example_entries_def google_news_entry_def truthy_def Let_def)

theorem analysis_report_witness:
  "\<exists>rep. get_stock_analysis world_no_ticker ''INFY.NS'' ''Infosys'' True 5 = Inr rep \<and>
         \<not> r_success rep \<and>
         failed_components rep = Some [''fundamentals''] \<and>
         map fst (r_data rep) = [''quote'', ''fundamentals'', ''news'']"
proof -
  let ?s = "replace ''.BO'' '''' (replace ''.NS'' '''' ''INFY.NS'')"
  from analysis_report [of world_no_ticker "''INFY.NS''" "''Infosys''" True 5]
  obtain rep qr fr nr where
    rep: "get_stock_analysis world_no_ticker ''INFY.NS'' ''Infosys'' True 5 = Inr rep"
    and qr: "get_stock_quote world_no_ticker ?s = Inr qr"
    and fr: "get_stock_fundamentals world_no_ticker ''INFY.NS'' = Inr fr"
    and nr: "get_stock_news world_no_ticker ''INFY.NS'' ''Infosys'' None 5 = Inr nr"
    and data: "r_data rep =
       [(''quote'', qr), (''fundamentals'', fr)] @ (if True then [(''news'', nr)] else [])"
    and ok: "r_success rep \<longleftrightarrow> (\<forall>(component, result) \<in> set (r_data rep). success result)"
    and failed: "\<not> r_success rep \<longrightarrow>
        failed_components rep =
          Some ((if success qr then [] else [''quote'']) @
                (if success fr then [] else [''fundamentals'']) @
                (if True \<and> \<not> success nr then [''news''] else []))"
    by blast
  have "success qr"
    using get_stock_quote_total [of world_no_ticker ?s] qr world_no_ticker_quote [of ?s]
    by simp
  moreover have "\<not> success fr"
    using get_stock_fundamentals_total [of world_no_ticker "''INFY.NS''"] fr
      world_no_ticker_fundamentals [of "''INFY.NS''"]
    by simp
  moreover have "success nr"
    using get_stock_news_total [of world_no_ticker "''INFY.NS''" "''Infosys''" None 5] nr
      world_no_ticker_news [of "''INFY.NS''" 5]
    by simp
  ultimately show ?thesis
    using rep data ok failed by simp
qed

end
